theory Spec2Isabelle
  imports Main "HOL-Library.AList"
begin

section \<open>JavaScript values, truthiness and strings\<close>

text \<open>
  Configuration fields whose TypeScript declaration is not part of the sources are kept as
  JavaScript primitives. Strict (in)equality \<open>===\<close> / \<open>!==\<close> on primitives is equality of
  these values; numbers are the integers (identifiers and timestamps).
\<close>

datatype jsval = Undefined | Null | Bool bool | Num int | Str string

fun truthy :: "jsval \<Rightarrow> bool" where
  "truthy Undefined = False"
| "truthy Null = False"
| "truthy (Bool b) = b"
| "truthy (Num n) = (n \<noteq> 0)"
| "truthy (Str s) = (s \<noteq> [])"

text \<open>\<open>a || b\<close> and \<open>a && b\<close> return one of their operands, not a boolean.\<close>

definition js_or :: "jsval \<Rightarrow> jsval \<Rightarrow> jsval" where
  "js_or a b = (if truthy a then a else b)"

definition js_and :: "jsval \<Rightarrow> jsval \<Rightarrow> jsval" where
  "js_and a b = (if truthy a then b else a)"

text \<open>An optional string field (\<open>x?: string\<close>): absent, or a string. \<open>!x\<close> holds of an
  absent field and of the empty string.\<close>

fun truthy_str :: "string option \<Rightarrow> bool" where
  "truthy_str None = False"
| "truthy_str (Some s) = (s \<noteq> [])"

fun string_of_nat :: "nat \<Rightarrow> string" where
  "string_of_nat n =
     (if n < 10 then [char_of (48 + n)]
      else string_of_nat (n div 10) @ [char_of (48 + n mod 10)])"

declare string_of_nat.simps [simp del]

text \<open>String conversion inside a template literal \<open>`${v}`\<close>.\<close>

fun template :: "jsval \<Rightarrow> string" where
  "template Undefined = ''undefined''"
| "template Null = ''null''"
| "template (Bool b) = (if b then ''true'' else ''false'')"
| "template (Num n) = (if n < 0 then ''-'' @ string_of_nat (nat (- n)) else string_of_nat (nat n))"
| "template (Str s) = s"

fun template_str :: "string option \<Rightarrow> string" where
  "template_str None = ''undefined''"
| "template_str (Some s) = s"

text \<open>\<open>s.indexOf(pat)\<close>: the first index at which \<open>pat\<close> occurs in \<open>s\<close>, or \<open>-1\<close>.\<close>

fun indexOf_from :: "string \<Rightarrow> string \<Rightarrow> nat \<Rightarrow> int" where
  "indexOf_from [] pat i = (if pat = [] then int i else - 1)"
| "indexOf_from (c # cs) pat i =
     (if take (length pat) (c # cs) = pat then int i else indexOf_from cs pat (Suc i))"

definition indexOf :: "string \<Rightarrow> string \<Rightarrow> int" where
  "indexOf s pat = indexOf_from s pat 0"

text \<open>\<open>s.substring(start)\<close>: \<open>start\<close> is clamped to \<open>0 .. s.length\<close>.\<close>

definition substring :: "string \<Rightarrow> int \<Rightarrow> string" where
  "substring s start = drop (nat (max 0 (min start (int (length s))))) s"

text \<open>Values thrown by the code and by what it calls: the constructor is the error class,
  the argument its message. \<open>StatusError\<close> is an error object that also carries a \<open>status\<close>
  property, as a client of an HTTP API may throw; the others carry none.\<close>

datatype exn =
    Error string
  | ExposableError string
  | TypeError string
  | SyntaxError string
  | RangeError string
  | StatusError string nat

fun message :: "exn \<Rightarrow> string" where
  "message (Error m) = m"
| "message (ExposableError m) = m"
| "message (TypeError m) = m"
| "message (SyntaxError m) = m"
| "message (RangeError m) = m"
| "message (StatusError m n) = m"

text \<open>\<open>error.status || 500\<close>.\<close>

fun status_or_500 :: "exn \<Rightarrow> nat" where
  "status_or_500 (StatusError m n) = (if n \<noteq> 0 then n else 500)"
| "status_or_500 e = 500"


section \<open>GitLab: webhook lifecycle (gitlab/src/events.ts)\<close>

datatype IntegrationInstallationStatus = Active | Pending | Paused

record GitLabSpaceInstallationConfiguration =
  project :: jsval
  auth_token :: jsval
  gitlab_host :: jsval
  ref :: jsval
  hook_id :: jsval

text \<open>The second parameter of \<open>shouldUpdateGitLabWebHook\<close>: \<open>{ status, conf }\<close>.\<close>

record previous_installation =
  status :: IntegrationInstallationStatus
  conf :: GitLabSpaceInstallationConfiguration

definition shouldUpdateGitLabWebHook ::
  "GitLabSpaceInstallationConfiguration \<Rightarrow> previous_installation \<Rightarrow> jsval" where
  "shouldUpdateGitLabWebHook newConf previous =
     js_or (Bool (project newConf \<noteq> project (conf previous)))
    (js_or (Bool (auth_token newConf \<noteq> auth_token (conf previous)))
    (js_or (Bool (gitlab_host newConf \<noteq> gitlab_host (conf previous)))
       (js_and (Bool (status previous = Pending))
       (js_and (Bool (\<not> truthy (ref (conf previous))))
               (ref newConf)))))"

text \<open>The event and the environment of \<open>handleSpaceInstallationSetupEvent\<close>.\<close>

record previous_state =
  prev_status :: IntegrationInstallationStatus
  prev_configuration :: "GitLabSpaceInstallationConfiguration option"

record SpaceInstallationSetupEvent =
  ev_status :: IntegrationInstallationStatus
  installationId :: string
  spaceId :: string
  ev_previous :: previous_state

record SpaceInstallation =
  sp_configuration :: "GitLabSpaceInstallationConfiguration option"
  sp_publicEndpoint :: string

record GitLabRuntimeEnvironment =
  spaceInstallation :: "SpaceInstallation option"
  integration_name :: string

text \<open>
  What the handler does to the outside, in order. \<open>installGitLabWebhook\<close> and
  \<open>uninstallGitLabWebhook\<close> (module \<open>./webhooks\<close>) and the host API are called, not
  defined, in this file of the sources: a call is an effect, and the identifier that
  \<open>installGitLabWebhook\<close> returns is a parameter of the handler.
\<close>

datatype gitlab_effect =
    ConsoleInfo string
  | UninstallGitLabWebhook jsval GitLabSpaceInstallationConfiguration
  | InstallGitLabWebhook string GitLabSpaceInstallationConfiguration
  | UpdateIntegrationSpaceInstallation string string string GitLabSpaceInstallationConfiguration

text \<open>The three messages written with \<open>console.info\<close>.\<close>

definition skipping_message :: "SpaceInstallationSetupEvent \<Rightarrow> string" where
  "skipping_message event =
     ''GitLab integration Space installation '' @ spaceId event @ ''/'' @ installationId event @
     '' is not complete. Skipping.''"

definition uninstalling_message ::
  "SpaceInstallationSetupEvent \<Rightarrow> jsval \<Rightarrow> GitLabSpaceInstallationConfiguration \<Rightarrow> string" where
  "uninstalling_message event prevHookId previousConfig =
     ''A webhook (ID: '' @ template prevHookId @ '') is already installed in GitLab project '' @
     template (project previousConfig) @ '' for Space installation '' @ installationId event @
     ''/'' @ spaceId event @ ''. Uninstalling.''"

definition installed_message ::
  "SpaceInstallationSetupEvent \<Rightarrow> jsval \<Rightarrow> GitLabSpaceInstallationConfiguration \<Rightarrow> string" where
  "installed_message event newHookId configuration =
     ''Webhook ID: '' @ template newHookId @ '' installed in GitLab project '' @
     template (project configuration) @ '' for Space installation '' @ installationId event @
     ''/'' @ spaceId event @ ''.''"

definition missing_project_error :: "SpaceInstallationSetupEvent \<Rightarrow> exn" where
  "missing_project_error event =
     Error (''No GitLab project or auth token provided for Space installation '' @
            spaceId event @ ''/'' @ installationId event)"

definition handleSpaceInstallationSetupEvent ::
  "SpaceInstallationSetupEvent \<Rightarrow> GitLabRuntimeEnvironment \<Rightarrow>
   (string \<Rightarrow> GitLabSpaceInstallationConfiguration \<Rightarrow> jsval) \<Rightarrow>
   gitlab_effect list \<times> (exn + unit)" where
  "handleSpaceInstallationSetupEvent event environment installGitLabWebhook =
    (if ev_status event = Pending then ([ConsoleInfo (skipping_message event)], Inr ())
     else
      (case spaceInstallation environment of
         None \<Rightarrow> ([], Inl (TypeError ''Cannot destructure environment.spaceInstallation''))
       | Some si \<Rightarrow>
          if ev_status event = Active then
            (case sp_configuration si of
               None \<Rightarrow> ([], Inl (missing_project_error event))
             | Some configuration \<Rightarrow>
                if \<not> truthy (project configuration) \<or> \<not> truthy (auth_token configuration)
                then ([], Inl (missing_project_error event))
                else
                 (let previousConfig = prev_configuration (ev_previous event) in
                  if (case previousConfig of
                        None \<Rightarrow> False
                      | Some pc \<Rightarrow>
                          \<not> truthy (shouldUpdateGitLabWebHook configuration
                                \<lparr>status = prev_status (ev_previous event), conf = pc\<rparr>))
                  then ([], Inr ())
                  else
                   (let prevHookId = (case previousConfig of None \<Rightarrow> Undefined | Some pc \<Rightarrow> hook_id pc);
                        uninstalling =
                          (case previousConfig of
                             None \<Rightarrow> []
                           | Some pc \<Rightarrow>
                               if truthy prevHookId
                               then [ConsoleInfo (uninstalling_message event prevHookId pc),
                                     UninstallGitLabWebhook prevHookId pc]
                               else []);
                        newHookId = installGitLabWebhook (sp_publicEndpoint si @ ''/webhook'') configuration
                    in (uninstalling @
                        [InstallGitLabWebhook (sp_publicEndpoint si @ ''/webhook'') configuration,
                         UpdateIntegrationSpaceInstallation (integration_name environment)
                           (installationId event) (spaceId event)
                           (configuration\<lparr>hook_id := newHookId\<rparr>),
                         ConsoleInfo (installed_message event newHookId configuration)],
                        Inr ()))))
          else ([], Inr ())))"

text \<open>The calls that act on a webhook or on the stored configuration (everything but logging).\<close>

fun is_webhook_action :: "gitlab_effect \<Rightarrow> bool" where
  "is_webhook_action (ConsoleInfo m) = False"
| "is_webhook_action (UninstallGitLabWebhook h c) = True"
| "is_webhook_action (InstallGitLabWebhook u c) = True"
| "is_webhook_action (UpdateIntegrationSpaceInstallation n i s c) = True"

definition webhook_actions :: "gitlab_effect list \<Rightarrow> gitlab_effect list" where
  "webhook_actions effs = filter is_webhook_action effs"




section \<open>Okta visitor authentication (va-okta/src/index.tsx)\<close>

record OktaSiteInstallationConfiguration =
  client_id :: "string option"
  okta_domain :: "string option"
  client_secret :: "string option"

record SiteInstallation =
  si_configuration :: OktaSiteInstallationConfiguration
  si_publicEndpoint :: "string option"
  si_site :: "string option"

text \<open>
  The parts of the runtime environment that the handlers read: \<open>siteInstallation\<close>,
  \<open>installation?.target?.organization\<close> and \<open>signingSecrets.siteInstallation\<close>. What the
  code reads with \<open>?.\<close> or tests before use may be absent; \<open>configuration\<close> and
  \<open>signingSecrets\<close>, which it reads without, are objects that are there.
\<close>

record OktaRuntimeEnvironment =
  siteInstallation :: "SiteInstallation option"
  organization :: "string option"
  signingSecret :: "string option"

definition assertSiteInstallation :: "OktaRuntimeEnvironment \<Rightarrow> exn + SiteInstallation" where
  "assertSiteInstallation environment =
     (case siteInstallation environment of
        None \<Rightarrow> Inl (Error ''No site installation found'')
      | Some si \<Rightarrow> Inr si)"

definition assertOrgId :: "OktaRuntimeEnvironment \<Rightarrow> exn + string" where
  "assertOrgId environment =
     (let orgId = organization environment in
      if \<not> truthy_str orgId then Inl (Error ''No org ID found'') else Inr (template_str orgId))"

subsection \<open>JSON values\<close>

text \<open>What \<open>JSON.parse\<close> returns: the body of a response, and the payload of a token. An
  object is the list of its entries (\<open>Object.entries\<close>), its keys distinct.\<close>

datatype json = JNull | JBool bool | JNum int | JStr string | JArr "json list" | JObj "(string \<times> json) list"

type_synonym JwtPayload = "(string \<times> json) list"

text \<open>Truthiness of a value that may be \<open>undefined\<close> (\<open>None\<close>).\<close>

fun truthy_json :: "json option \<Rightarrow> bool" where
  "truthy_json None = False"
| "truthy_json (Some JNull) = False"
| "truthy_json (Some (JBool b)) = b"
| "truthy_json (Some (JNum n)) = (n \<noteq> 0)"
| "truthy_json (Some (JStr s)) = (s \<noteq> [])"
| "truthy_json (Some (JArr xs)) = True"
| "truthy_json (Some (JObj entries)) = True"

text \<open>
  Reading a property \<open>v.name\<close> of a parsed value, for the names the code reads (\<open>error\<close>,
  \<open>error_description\<close>, \<open>access_token\<close>): on \<open>null\<close> the read throws a \<open>TypeError\<close>, on an
  object it gives the entry or \<open>undefined\<close>, and a boolean, a number, a string or an array
  has no property of these names.
\<close>

fun property :: "json \<Rightarrow> string \<Rightarrow> exn + json option" where
  "property JNull name = Inl (TypeError (''Cannot read properties of null (reading '' @ name @ '')''))"
| "property (JObj entries) name = Inr (map_of entries name)"
| "property (JBool b) name = Inr None"
| "property (JNum n) name = Inr None"
| "property (JStr s) name = Inr None"
| "property (JArr xs) name = Inr None"

subsection \<open>The claims that are signed\<close>

text \<open>
  The callback of \<open>forEach\<close> in \<open>sanitizeJWTTokenClaims\<close>: an entry named \<open>iat\<close> or \<open>exp\<close> is
  skipped, any other is assigned with \<open>result[key] = value\<close>. On the plain object \<open>result\<close>
  the assignment to the key \<open>__proto__\<close> runs the setter of \<open>Object.prototype\<close> and makes
  no property of \<open>result\<close>: what the caller then copies with \<open>{...result}\<close>, the own
  properties, is unchanged by it.
\<close>

fun sanitize_entry :: "JwtPayload \<Rightarrow> string \<times> json \<Rightarrow> JwtPayload" where
  "sanitize_entry result (key, val) =
     (if key \<in> set [''iat'', ''exp''] then result
      else if key = ''__proto__'' then result
      else AList.update key val result)"

definition sanitizeJWTTokenClaims :: "JwtPayload \<Rightarrow> JwtPayload" where
  "sanitizeJWTTokenClaims claims = foldl sanitize_entry [] claims"

text \<open>The object handed to \<open>jwt.sign\<close>:
  \<open>{ ...sanitizeJWTTokenClaims(payload || {}), exp: Math.floor(Date.now() / 1000) + 1 * (60 * 60) }\<close>,
  with \<open>Date.now()\<close> in milliseconds.\<close>

definition signed_claims :: "JwtPayload option \<Rightarrow> nat \<Rightarrow> JwtPayload" where
  "signed_claims payload date_now =
     AList.update ''exp'' (JNum (int (date_now div 1000) + 1 * (60 * 60)))
       (sanitizeJWTTokenClaims (case payload of None \<Rightarrow> [] | Some claims \<Rightarrow> claims))"

subsection \<open>Requests, responses and the outside\<close>

text \<open>A query parameter of the router: one string, or the list of the repeated values.
  \<open>toString()\<close> of a list joins its elements with commas.\<close>

datatype query_value = Single string | Multiple "string list"

fun join_comma :: "string list \<Rightarrow> string" where
  "join_comma [] = []"
| "join_comma [x] = x"
| "join_comma (x # y # ys) = x @ '','' @ join_comma (y # ys)"

fun toString :: "query_value \<Rightarrow> string" where
  "toString (Single s) = s"
| "toString (Multiple xs) = join_comma xs"

record Request =
  req_method :: string
  req_url :: string
  req_path :: string
  query_code :: "query_value option"
  query_state :: "query_value option"

text \<open>The route \<open>router.get('/visitor-auth/response', ...)\<close>; \<open>req_path\<close> is the path of the
  request below the router's base.\<close>

definition matches_callback :: "Request \<Rightarrow> bool" where
  "matches_callback request =
     (req_method request = ''GET'' \<and> req_path request = ''/visitor-auth/response'')"

text \<open>The state decoding of the callback:
  \<open>state ? state.substring(state.indexOf('-') + 1) : ''\<close>.\<close>

definition decode_location :: "string option \<Rightarrow> string" where
  "decode_location state =
     (if truthy_str state
      then substring (template_str state) (indexOf (template_str state) ''-'' + 1)
      else [])"

text \<open>A URL object: what \<open>new URL\<close> made of a string, and its search parameters in order
  (\<open>searchParams.append\<close> adds one at the end). A response is a body with a status, or a
  redirect to a URL.\<close>

record URL =
  href :: string
  searchParams :: "(string \<times> string) list"

datatype Response = Response string nat | Redirect URL

record SiteUrls =
  published :: "string option"

text \<open>The response of the token endpoint: its HTTP status, and the result of \<open>json()\<close> on its
  body, which throws when the body is not JSON. The property \<open>ok\<close> of a response says that
  the status is in the range 200 to 299.\<close>

record OktaTokenResponse =
  resp_status :: nat
  resp_json :: "exn + json"

definition ok :: "OktaTokenResponse \<Rightarrow> bool" where
  "ok response = (200 \<le> resp_status response \<and> resp_status response \<le> 299)"

text \<open>
  The calls that leave the integration are parameters of the handlers, and each of them
  returns a value or throws (a promise that rejects): the host API (\<open>getSiteById\<close>, with the
  read of \<open>data.urls\<close> in its result), \<open>fetch\<close> on the token endpoint, \<open>jwt.decode\<close> (its
  result is the \<open>payload\<close> of what it returns), \<open>jwt.sign\<close> and \<open>new URL\<close>. The clock is a
  number of milliseconds.
\<close>

record outside =
  getSiteById :: "string \<Rightarrow> string option \<Rightarrow> exn + SiteUrls option"
  fetch_token :: "string \<Rightarrow> (string \<times> string) list \<Rightarrow> exn + OktaTokenResponse"
  jwt_decode :: "json \<Rightarrow> exn + JwtPayload option"
  jwt_sign :: "JwtPayload \<Rightarrow> string \<Rightarrow> exn + string"
  new_URL :: "string \<Rightarrow> exn + URL"
  date_now :: nat

text \<open>What a handler does to the outside, in order. \<open>LoggerDebugNoToken a b\<close> is the call of
  \<open>logger.debug\<close> with the template \<open>Did not receive access token. Error: ${a} ${b}\<close>.\<close>

datatype okta_effect =
    GetSiteById string "string option"
  | FetchPost string "(string \<times> string) list"
  | LoggerDebugJSON json
  | LoggerDebugNoToken json json
  | LoggerError exn
  | JwtSign JwtPayload string

definition getPublishedContentUrls ::
  "OktaRuntimeEnvironment \<Rightarrow> outside \<Rightarrow> okta_effect list \<times> (exn + SiteUrls option)" where
  "getPublishedContentUrls environment w =
     (case assertOrgId environment of
        Inl e \<Rightarrow> ([], Inl e)
      | Inr organizationId \<Rightarrow>
         (case assertSiteInstallation environment of
            Inl e \<Rightarrow> ([], Inl e)
          | Inr si \<Rightarrow>
             ([GetSiteById organizationId (si_site si)],
              getSiteById w organizationId (si_site si))))"

text \<open>The \<open>try\<close> block of the callback, from the private key to the redirect: whatever is
  thrown inside is answered with status 500.\<close>

definition sign_and_redirect ::
  "Request \<Rightarrow> OktaRuntimeEnvironment \<Rightarrow> outside \<Rightarrow> SiteUrls option \<Rightarrow> JwtPayload option \<Rightarrow>
   okta_effect list \<times> Response" where
  "sign_and_redirect request environment w publishedContentUrls decodedPayload =
     (let privateKey = signingSecret environment in
      if \<not> truthy_str privateKey
      then ([], Response ''Error: Missing private key from site installation'' 400)
      else
       (let claims = signed_claims decodedPayload (date_now w) in
        case jwt_sign w claims (template_str privateKey) of
          Inl e \<Rightarrow>
            ([JwtSign claims (template_str privateKey)],
             Response ''Error: Could not sign JWT token'' 500)
        | Inr jwtToken \<Rightarrow>
           (let publishedContentUrl =
                  (case publishedContentUrls of None \<Rightarrow> None | Some urls \<Rightarrow> published urls) in
            if \<not> truthy_str publishedContentUrl \<or> jwtToken = []
            then ([JwtSign claims (template_str privateKey)],
                  Response (''Error: Either JWT token or site'' @ [CHR 0x27] @
                            ''s published URL is missing'') 500)
            else
             (let state = map_option toString (query_state request);
                  location = decode_location state
              in (case new_URL w (template_str publishedContentUrl @ location) of
                    Inl e \<Rightarrow>
                      ([JwtSign claims (template_str privateKey)],
                       Response ''Error: Could not sign JWT token'' 500)
                  | Inr url \<Rightarrow>
                      ([JwtSign claims (template_str privateKey)],
                       Redirect (url\<lparr>searchParams := searchParams url @ [(''jwt_token'', jwtToken)]\<rparr>)))))))"

text \<open>A hole of the log line: \<open>(errorResponse && errorResponse.name) || ''\<close>.\<close>

definition error_detail :: "json \<Rightarrow> string \<Rightarrow> json" where
  "error_detail errorResponse name =
     (if truthy_json (Some errorResponse)
      then (case property errorResponse name of
              Inl e \<Rightarrow> JStr []
            | Inr v \<Rightarrow> (if truthy_json v then (case v of None \<Rightarrow> JStr [] | Some x \<Rightarrow> x) else JStr []))
      else JStr [])"

text \<open>What the callback does with the response of the token endpoint (lines 245 to 303).
  \<open>json()\<close>, the read of \<open>access_token\<close> and \<open>jwt.decode\<close> stand before the \<open>try\<close>: what
  they throw leaves the callback.\<close>

definition handle_token_response ::
  "Request \<Rightarrow> OktaRuntimeEnvironment \<Rightarrow> outside \<Rightarrow> SiteUrls option \<Rightarrow> OktaTokenResponse \<Rightarrow>
   okta_effect list \<times> (exn + Response)" where
  "handle_token_response request environment w publishedContentUrls oktaTokenResp =
     (if \<not> ok oktaTokenResp then
        (case resp_json oktaTokenResp of
           Inl e \<Rightarrow> ([], Inl e)
         | Inr errorResponse \<Rightarrow>
            ([LoggerDebugJSON errorResponse,
              LoggerDebugNoToken (error_detail errorResponse ''error'')
                                 (error_detail errorResponse ''error_description'')],
             Inr (Response ''Error: Could not fetch token from Okta'' 401)))
      else
        (case resp_json oktaTokenResp of
           Inl e \<Rightarrow> ([], Inl e)
         | Inr oktaTokenData \<Rightarrow>
            (case property oktaTokenData ''access_token'' of
               Inl e \<Rightarrow> ([], Inl e)
             | Inr None \<Rightarrow>
                ([], Inr (Response ''Error: No Access Token found in response from Okta'' 401))
             | Inr (Some access_token) \<Rightarrow>
                if \<not> truthy_json (Some access_token)
                then ([], Inr (Response ''Error: No Access Token found in response from Okta'' 401))
                else
                 (case jwt_decode w access_token of
                    Inl e \<Rightarrow> ([], Inl e)
                  | Inr decodedPayload \<Rightarrow>
                     (case sign_and_redirect request environment w publishedContentUrls decodedPayload of
                        (effs, response) \<Rightarrow> (effs, Inr response))))))"

text \<open>The request of the token exchange: the constants \<open>accessTokenURL\<close> and
  \<open>searchParams\<close> of the callback.\<close>

definition accessTokenURL :: "SiteInstallation \<Rightarrow> string" where
  "accessTokenURL si =
     ''https://'' @ template_str (okta_domain (si_configuration si)) @ ''/oauth2/v1/token/''"

definition token_searchParams :: "Request \<Rightarrow> SiteInstallation \<Rightarrow> string \<Rightarrow> (string \<times> string) list" where
  "token_searchParams request si installationURL =
     [(''grant_type'', ''authorization_code''),
      (''client_id'', template_str (client_id (si_configuration si))),
      (''client_secret'', template_str (client_secret (si_configuration si))),
      (''code'', template_str (map_option toString (query_code request))),
      (''redirect_uri'', installationURL @ ''/visitor-auth/response'')]"

text \<open>The callback of the route \<open>/visitor-auth/response\<close>; \<open>None\<close> is \<open>undefined\<close> (the callback
  falls through when the installation has no site).\<close>

definition visitor_auth_response ::
  "Request \<Rightarrow> OktaRuntimeEnvironment \<Rightarrow> outside \<Rightarrow> SiteInstallation \<Rightarrow> string \<Rightarrow>
   okta_effect list \<times> (exn + Response option)" where
  "visitor_auth_response request environment w si installationURL =
     (if truthy_str (si_site si) then
        (case getPublishedContentUrls environment w of
           (effs, Inl e) \<Rightarrow> (effs, Inl e)
         | (effs, Inr publishedContentUrls) \<Rightarrow>
            (let oktaDomain = okta_domain (si_configuration si);
                 clientId = client_id (si_configuration si);
                 clientSecret = client_secret (si_configuration si) in
             if \<not> truthy_str clientId \<or> \<not> truthy_str clientSecret \<or> \<not> truthy_str oktaDomain
             then (effs, Inr (Some (Response
                     ''Error: Either client id, client secret or okta domain is missing'' 400)))
             else
              (case fetch_token w (accessTokenURL si) (token_searchParams request si installationURL) of
                 Inl e \<Rightarrow>
                   (effs @ [FetchPost (accessTokenURL si) (token_searchParams request si installationURL)],
                    Inl e)
               | Inr oktaTokenResp \<Rightarrow>
                  (case handle_token_response request environment w publishedContentUrls oktaTokenResp of
                     (effs', Inl e) \<Rightarrow>
                       (effs @
                        [FetchPost (accessTokenURL si) (token_searchParams request si installationURL)] @
                        effs',
                        Inl e)
                   | (effs', Inr response) \<Rightarrow>
                       (effs @
                        [FetchPost (accessTokenURL si) (token_searchParams request si installationURL)] @
                        effs',
                        Inr (Some response))))))
      else ([], Inr None))"

text \<open>The answer of the \<open>catch\<close>: \<open>new Response(error.message, { status: error.status || 500 })\<close>.
  The constructor of a response throws a \<open>RangeError\<close> for a status outside 200 to 599.\<close>

definition error_response :: "exn \<Rightarrow> exn + Response option" where
  "error_response thrown =
     (if 200 \<le> status_or_500 thrown \<and> status_or_500 thrown \<le> 599
      then Inr (Some (Response (message thrown) (status_or_500 thrown)))
      else Inl (RangeError ''The status provided is outside the range [200, 599]''))"

text \<open>The handler of fetch events. \<open>new URL(installationURL)\<close>, which gives the base of the
  router, stands before the \<open>try\<close>; what the callback throws is caught and answered with
  \<open>error.status || 500\<close>.\<close>

definition handleFetchEvent ::
  "Request \<Rightarrow> OktaRuntimeEnvironment \<Rightarrow> outside \<Rightarrow> okta_effect list \<times> (exn + Response option)" where
  "handleFetchEvent request environment w =
     (case assertSiteInstallation environment of
        Inl e \<Rightarrow> ([], Inl e)
      | Inr si \<Rightarrow>
         (let installationURL = si_publicEndpoint si in
          if truthy_str installationURL then
            (case new_URL w (template_str installationURL) of
               Inl e \<Rightarrow> ([], Inl e)
             | Inr base \<Rightarrow>
                (case (if matches_callback request
                       then visitor_auth_response request environment w si (template_str installationURL)
                       else ([], Inr None)) of
                   (effs, Inl thrown) \<Rightarrow>
                     (effs @ [LoggerError thrown], error_response thrown)
                 | (effs, Inr None) \<Rightarrow>
                     (effs, Inr (Some (Response (''No route matching '' @ req_method request @ '' '' @
                                                 req_url request) 404)))
                 | (effs, Inr (Some response)) \<Rightarrow> (effs, Inr (Some response))))
          else ([], Inr None)))"

record VisitorAuthenticationEvent =
  ev_location :: "string option"

definition fetch_visitor_authentication ::
  "VisitorAuthenticationEvent \<Rightarrow> OktaRuntimeEnvironment \<Rightarrow> outside \<Rightarrow> exn + Response" where
  "fetch_visitor_authentication event environment w =
     (case assertSiteInstallation environment of
        Inl e \<Rightarrow> Inl e
      | Inr si \<Rightarrow>
         (let installationURL = si_publicEndpoint si;
              configuration = si_configuration si;
              oktaDomain = okta_domain configuration;
              clientId = client_id configuration;
              location = (if truthy_str (ev_location event) then template_str (ev_location event) else [])
          in if \<not> truthy_str clientId \<or> \<not> truthy_str oktaDomain
             then Inl (ExposableError ''OIDC configuration is missing'')
             else
              (case new_URL w (''https://'' @ template_str oktaDomain @ ''/oauth2/v1/authorize'') of
                 Inl e \<Rightarrow> Inl e
               | Inr url \<Rightarrow>
                  Inr (Redirect
                    (url\<lparr>searchParams := searchParams url @
                       [(''client_id'', template_str clientId),
                        (''response_type'', ''code''),
                        (''redirect_uri'', template_str installationURL @ ''/visitor-auth/response''),
                        (''response_mode'', ''query''),
                        (''scope'', ''openid''),
                        (''state'', ''state-'' @ location)]\<rparr>)))))"

text \<open>The three values without which the callback does not start the exchange.\<close>

definition config_complete :: "SiteInstallation \<Rightarrow> bool" where
  "config_complete si =
    (truthy_str (client_id (si_configuration si)) \<and>
     truthy_str (client_secret (si_configuration si)) \<and>
     truthy_str (okta_domain (si_configuration si)))"


section \<open>Concrete inputs\<close>

definition ex_configuration :: OktaSiteInstallationConfiguration where
  "ex_configuration =
     \<lparr>client_id = Some ''0oa1'', okta_domain = Some ''dev.okta.com'', client_secret = Some ''s3cret''\<rparr>"

definition ex_siteInstallation :: SiteInstallation where
  "ex_siteInstallation =
     \<lparr>si_configuration = ex_configuration,
      si_publicEndpoint = Some ''https://i.example.com/va-okta'',
      si_site = Some ''site_1''\<rparr>"

definition ex_incomplete :: SiteInstallation where
  "ex_incomplete = ex_siteInstallation\<lparr>si_configuration := ex_configuration\<lparr>client_id := None\<rparr>\<rparr>"

definition ex_spaced :: SiteInstallation where
  "ex_spaced = ex_siteInstallation\<lparr>si_configuration := ex_configuration\<lparr>okta_domain := Some ''my okta''\<rparr>\<rparr>"

definition ex_environment :: OktaRuntimeEnvironment where
  "ex_environment =
     \<lparr>siteInstallation = Some ex_siteInstallation, organization = Some ''org_1'',
      signingSecret = Some ''key''\<rparr>"

definition ex_request :: Request where
  "ex_request =
     \<lparr>req_method = ''GET'',
      req_url = ''https://i.example.com/va-okta/visitor-auth/response?code=c0de&state=abc'',
      req_path = ''/visitor-auth/response'',
      query_code = Some (Single ''c0de''),
      query_state = Some (Single ''abc'')\<rparr>"

definition ex_claims :: JwtPayload where
  "ex_claims =
     [(''sub'', JStr ''u1''), (''email'', JStr ''a@b.com''), (''iat'', JNum 1000), (''exp'', JNum 2000)]"

definition ex_proto_claims :: JwtPayload where
  "ex_proto_claims = [(''__proto__'', JObj [(''admin'', JBool True)]), (''sub'', JStr ''u1'')]"

definition ex_tokenResponse :: OktaTokenResponse where
  "ex_tokenResponse =
     \<lparr>resp_status = 200, resp_json = Inr (JObj [(''access_token'', JStr ''h.p.s'')])\<rparr>"

definition ex_opaqueResponse :: OktaTokenResponse where
  "ex_opaqueResponse =
     \<lparr>resp_status = 200, resp_json = Inr (JObj [(''access_token'', JStr ''tok'')])\<rparr>"

definition ex_errorResponse :: OktaTokenResponse where
  "ex_errorResponse =
     \<lparr>resp_status = 401, resp_json = Inr (JObj [(''error'', JStr ''invalid_grant'')])\<rparr>"

definition ex_htmlResponse :: OktaTokenResponse where
  "ex_htmlResponse =
     \<lparr>resp_status = 502, resp_json = Inl (SyntaxError ''Unexpected token < in JSON at position 0'')\<rparr>"

text \<open>A URL parser that refuses a string with a space and takes any other string as it is;
  a decoder that throws on a token without a dot.\<close>

definition ex_new_URL :: "string \<Rightarrow> exn + URL" where
  "ex_new_URL s =
     (if CHR '' '' \<in> set s then Inl (TypeError ''Invalid URL'')
      else Inr \<lparr>href = s, searchParams = []\<rparr>)"

definition ex_jwt_decode :: "json \<Rightarrow> exn + JwtPayload option" where
  "ex_jwt_decode token =
     (case token of
        JStr s \<Rightarrow>
          (if CHR ''.'' \<in> set s then Inr (Some ex_claims)
           else Inl (TypeError ''Cannot read properties of undefined''))
      | _ \<Rightarrow> Inl (TypeError ''token.split is not a function''))"

definition ex_outside :: outside where
  "ex_outside =
     \<lparr>getSiteById = (\<lambda>org site. Inr (Some \<lparr>published = Some ''https://docs.example.com''\<rparr>)),
      fetch_token = (\<lambda>url form. Inr ex_tokenResponse),
      jwt_decode = ex_jwt_decode,
      jwt_sign = (\<lambda>claims key. Inr ''signed''),
      new_URL = ex_new_URL,
      date_now = 5000999\<rparr>"

definition ex_newConf :: GitLabSpaceInstallationConfiguration where
  "ex_newConf =
     \<lparr>project = Num 42, auth_token = Str ''glpat'', gitlab_host = Str ''https://gitlab.com'',
      ref = Str ''main'', hook_id = Undefined\<rparr>"

definition ex_previousConf :: GitLabSpaceInstallationConfiguration where
  "ex_previousConf =
     \<lparr>project = Num 41, auth_token = Str ''glpat'', gitlab_host = Str ''https://gitlab.com'',
      ref = Str ''main'', hook_id = Num 7\<rparr>"

definition ex_event :: SpaceInstallationSetupEvent where
  "ex_event =
     \<lparr>ev_status = Active, installationId = ''inst_1'', spaceId = ''space_1'',
      ev_previous = \<lparr>prev_status = Active, prev_configuration = Some ex_previousConf\<rparr>\<rparr>"

definition ex_gitlabEnvironment :: GitLabRuntimeEnvironment where
  "ex_gitlabEnvironment =
     \<lparr>spaceInstallation =
        Some \<lparr>sp_configuration = Some ex_newConf, sp_publicEndpoint = ''https://i.example.com/gitlab''\<rparr>,
      integration_name = ''gitlab''\<rparr>"

definition ex_install :: "string \<Rightarrow> GitLabSpaceInstallationConfiguration \<Rightarrow> jsval" where
  "ex_install url configuration = Num 8"


section \<open>Auxiliary facts\<close>

lemmas ex_defs = ok_def ex_configuration_def ex_siteInstallation_def ex_incomplete_def ex_spaced_def
  ex_environment_def ex_request_def ex_claims_def ex_proto_claims_def ex_tokenResponse_def
  ex_opaqueResponse_def ex_errorResponse_def ex_htmlResponse_def ex_new_URL_def ex_jwt_decode_def
  ex_outside_def

lemmas callback_defs = handleFetchEvent_def visitor_auth_response_def getPublishedContentUrls_def
  assertOrgId_def assertSiteInstallation_def handle_token_response_def sign_and_redirect_def
  error_response_def error_detail_def
  matches_callback_def accessTokenURL_def token_searchParams_def decode_location_def
  substring_def indexOf_def signed_claims_def sanitizeJWTTokenClaims_def Let_def

subsection \<open>Searching for one character\<close>

lemma indexOf_from_absent: "c \<notin> set s \<Longrightarrow> indexOf_from s [c] i = - 1"
  by (induction s arbitrary: i) auto

lemma indexOf_from_first:
  "c \<notin> set pre \<Longrightarrow> indexOf_from (pre @ c # rest) [c] i = int (i + length pre)"
  by (induction pre arbitrary: i) auto

lemma decode_location_split:
  "CHR ''-'' \<notin> set pre \<Longrightarrow> decode_location (Some (pre @ ''-'' @ rest)) = rest"
proof -
  assume a: "CHR ''-'' \<notin> set pre"
  have i: "indexOf (pre @ CHR ''-'' # rest) ''-'' = int (length pre)"
    using indexOf_from_first [OF a, of rest 0] by (simp add: indexOf_def)
  have n: "nat (int (length pre) + 1) = Suc (length pre)" by simp
  show ?thesis
    by (simp add: decode_location_def substring_def i n del: of_nat_Suc)
qed

subsection \<open>The claims that are signed\<close>






subsection \<open>Where the callback calls the token endpoint\<close>

lemma sign_and_redirect_no_fetch:
  "FetchPost u b \<notin> set (fst (sign_and_redirect request environment w pubs payload))"
  by (simp add: sign_and_redirect_def Let_def split: sum.splits)

lemma sign_and_redirect_no_fetch_pair:
  "sign_and_redirect request environment w pubs payload = (effs, response) \<Longrightarrow>
   FetchPost u b \<notin> set effs"
  using sign_and_redirect_no_fetch [of u b request environment w pubs payload] by simp

lemma handle_token_response_no_fetch:
  "FetchPost u b \<notin> set (fst (handle_token_response request environment w pubs resp))"
  by (auto simp add: handle_token_response_def split: sum.splits option.splits prod.splits
        dest: sign_and_redirect_no_fetch_pair)

lemma handle_token_response_no_fetch_pair:
  "handle_token_response request environment w pubs resp = (effs, r) \<Longrightarrow> FetchPost u b \<notin> set effs"
  using handle_token_response_no_fetch [of u b request environment w pubs resp] by simp

lemma getPublishedContentUrls_no_fetch:
  "FetchPost u b \<notin> set (fst (getPublishedContentUrls environment w))"
  by (simp add: getPublishedContentUrls_def split: sum.splits)

lemma getPublishedContentUrls_returns:
  assumes "siteInstallation environment = Some si'" and "truthy_str (organization environment)"
  shows "getPublishedContentUrls environment w =
     ([GetSiteById (template_str (organization environment)) (si_site si')],
      getSiteById w (template_str (organization environment)) (si_site si'))"
  using assms
  by (simp add: getPublishedContentUrls_def assertOrgId_def assertSiteInstallation_def Let_def)

lemma visitor_auth_response_exchange:
  assumes "siteInstallation environment = Some si'"
    and "truthy_str (si_site si)" and "truthy_str (organization environment)"
    and "config_complete si"
    and "getSiteById w (template_str (organization environment)) (si_site si') = Inr pubs"
    and "fetch_token w (accessTokenURL si) (token_searchParams request si iu) = Inr resp"
  shows "visitor_auth_response request environment w si iu =
    (GetSiteById (template_str (organization environment)) (si_site si') #
     FetchPost (accessTokenURL si) (token_searchParams request si iu) #
     fst (handle_token_response request environment w pubs resp),
     (case snd (handle_token_response request environment w pubs resp) of
        Inl e \<Rightarrow> Inl e | Inr response \<Rightarrow> Inr (Some response)))"
  using assms
  by (simp add: visitor_auth_response_def getPublishedContentUrls_returns config_complete_def Let_def
        split: prod.splits sum.splits)

lemma visitor_auth_response_incomplete:
  assumes "\<not> config_complete si"
  shows "FetchPost u b \<notin> set (fst (visitor_auth_response request environment w si iu))"
  using assms getPublishedContentUrls_no_fetch [of u b environment w]
  by (auto simp add: visitor_auth_response_def config_complete_def Let_def
        split: prod.splits sum.splits)

lemma visitor_auth_response_fetch:
  assumes "FetchPost u b \<in> set (fst (visitor_auth_response request environment w si iu))"
  shows "\<exists>si' pubs. siteInstallation environment = Some si' \<and> truthy_str (si_site si) \<and>
         truthy_str (organization environment) \<and> config_complete si \<and>
         getSiteById w (template_str (organization environment)) (si_site si') = Inr pubs \<and>
         u = accessTokenURL si \<and> b = token_searchParams request si iu"
proof -
  from assms visitor_auth_response_incomplete have c: "config_complete si" by blast
  from assms have s: "truthy_str (si_site si)"
    by (auto simp add: visitor_auth_response_def split: if_splits)
  from assms s have o: "truthy_str (organization environment)"
    by (auto simp add: visitor_auth_response_def getPublishedContentUrls_def assertOrgId_def Let_def
        split: if_splits)
  from assms s o obtain si' where i: "siteInstallation environment = Some si'"
    by (cases "siteInstallation environment")
       (auto simp add: visitor_auth_response_def getPublishedContentUrls_def assertOrgId_def
          assertSiteInstallation_def Let_def)
  from assms s obtain pubs where
    g: "getSiteById w (template_str (organization environment)) (si_site si') = Inr pubs"
    by (cases "getSiteById w (template_str (organization environment)) (si_site si')")
       (auto simp add: visitor_auth_response_def getPublishedContentUrls_returns [OF i o])
  from assms s c
  have "u = accessTokenURL si \<and> b = token_searchParams request si iu"
    by (auto simp add: visitor_auth_response_def getPublishedContentUrls_returns [OF i o] g
          config_complete_def Let_def split: sum.splits prod.splits
          dest: handle_token_response_no_fetch_pair)
  with c s o i g show ?thesis by blast
qed

lemma handleFetchEvent_fetch:
  assumes "FetchPost u b \<in> set (fst (handleFetchEvent request environment w))"
  shows "\<exists>si pubs base. siteInstallation environment = Some si \<and> truthy_str (si_publicEndpoint si) \<and>
           new_URL w (template_str (si_publicEndpoint si)) = Inr base \<and>
           matches_callback request \<and> truthy_str (si_site si) \<and>
           truthy_str (organization environment) \<and> config_complete si \<and>
           getSiteById w (template_str (organization environment)) (si_site si) = Inr pubs \<and>
           u = accessTokenURL si \<and>
           b = token_searchParams request si (template_str (si_publicEndpoint si))"
proof (cases "siteInstallation environment")
  case None
  with assms show ?thesis
    by (simp add: handleFetchEvent_def assertSiteInstallation_def)
next
  case (Some si)
  from assms Some have p: "truthy_str (si_publicEndpoint si)"
    by (auto simp add: handleFetchEvent_def assertSiteInstallation_def Let_def split: if_splits)
  from assms Some p obtain base where n: "new_URL w (template_str (si_publicEndpoint si)) = Inr base"
    by (cases "new_URL w (template_str (si_publicEndpoint si))")
       (auto simp add: handleFetchEvent_def assertSiteInstallation_def Let_def)
  from assms Some p n have m: "matches_callback request"
    by (auto simp add: handleFetchEvent_def assertSiteInstallation_def Let_def split: if_splits)
  from assms Some p n m
  have "FetchPost u b \<in> set (fst (visitor_auth_response request environment w si
            (template_str (si_publicEndpoint si))))"
    by (auto simp add: handleFetchEvent_def assertSiteInstallation_def Let_def
          split: prod.splits sum.splits option.splits)
  from visitor_auth_response_fetch [OF this] Some p n m show ?thesis by auto
qed

lemma handleFetchEvent_exchange:
  assumes "siteInstallation environment = Some si" and "truthy_str (si_publicEndpoint si)"
    and "new_URL w (template_str (si_publicEndpoint si)) = Inr base"
    and "matches_callback request" and "truthy_str (si_site si)"
    and "truthy_str (organization environment)" and "config_complete si"
    and "getSiteById w (template_str (organization environment)) (si_site si) = Inr pubs"
    and "fetch_token w (accessTokenURL si)
           (token_searchParams request si (template_str (si_publicEndpoint si))) = Inr resp"
  shows "handleFetchEvent request environment w =
    (GetSiteById (template_str (organization environment)) (si_site si) #
     FetchPost (accessTokenURL si) (token_searchParams request si (template_str (si_publicEndpoint si))) #
     fst (handle_token_response request environment w pubs resp) @
     (case snd (handle_token_response request environment w pubs resp) of
        Inl e \<Rightarrow> [LoggerError e] | Inr response \<Rightarrow> []),
     (case snd (handle_token_response request environment w pubs resp) of
        Inl e \<Rightarrow> error_response e | Inr response \<Rightarrow> Inr (Some response)))"
  using assms(1-4)
  by (simp add: handleFetchEvent_def assertSiteInstallation_def Let_def
        visitor_auth_response_exchange [OF assms(1) assms(5) assms(6) assms(7) assms(8) assms(9)]
        split: sum.splits)

subsection \<open>Where the callback calls the signer\<close>

lemma sign_and_redirect_no_key:
  "\<not> truthy_str (signingSecret environment) \<Longrightarrow>
   sign_and_redirect request environment w pubs payload =
     ([], Response ''Error: Missing private key from site installation'' 400)"
  by (simp add: sign_and_redirect_def Let_def)





lemma getPublishedContentUrls_no_sign:
  "JwtSign p k \<notin> set (fst (getPublishedContentUrls environment w))"
  by (simp add: getPublishedContentUrls_def split: sum.splits)



text \<open>Without a private key the callback neither signs nor redirects.\<close>

lemma handle_token_response_no_key:
  assumes "\<not> truthy_str (signingSecret environment)"
  shows "JwtSign p k \<notin> set (fst (handle_token_response request environment w pubs resp)) \<and>
         snd (handle_token_response request environment w pubs resp) \<noteq> Inr (Redirect url)"
  using assms
  by (auto simp add: handle_token_response_def sign_and_redirect_no_key
        split: sum.splits option.splits)

lemma handle_token_response_no_key_pair:
  assumes "\<not> truthy_str (signingSecret environment)"
    and "handle_token_response request environment w pubs resp = (effs, r)"
  shows "JwtSign p k \<notin> set effs \<and> r \<noteq> Inr (Redirect url)"
  using handle_token_response_no_key [OF assms(1), of p k request w pubs resp url] assms(2) by simp

lemma visitor_auth_response_no_key:
  assumes "\<not> truthy_str (signingSecret environment)"
  shows "JwtSign p k \<notin> set (fst (visitor_auth_response request environment w si iu)) \<and>
         snd (visitor_auth_response request environment w si iu) \<noteq> Inr (Some (Redirect url))"
  using getPublishedContentUrls_no_sign [of p k environment w]
  by (auto simp add: visitor_auth_response_def Let_def
        split: if_splits prod.splits sum.splits
        dest: handle_token_response_no_key_pair [OF assms, of _ _ _ _ _ _ p k url])

lemma error_response_no_redirect: "error_response e \<noteq> Inr (Some (Redirect url))"
  by (simp add: error_response_def)

lemma handleFetchEvent_no_key:
  assumes "\<not> truthy_str (signingSecret environment)"
  shows "JwtSign p k \<notin> set (fst (handleFetchEvent request environment w)) \<and>
         snd (handleFetchEvent request environment w) \<noteq> Inr (Some (Redirect url))"
proof (cases "siteInstallation environment")
  case None
  then show ?thesis by (simp add: handleFetchEvent_def assertSiteInstallation_def)
next
  case (Some si)
  show ?thesis
    using visitor_auth_response_no_key [OF assms, of p k request w si
        "template_str (si_publicEndpoint si)" url] Some
    by (auto simp add: handleFetchEvent_def assertSiteInstallation_def Let_def
          error_response_no_redirect
          split: if_splits prod.splits sum.splits option.splits)
qed

text \<open>On the path that ends in the redirect, the target is what \<open>new URL\<close> makes of the
  published URL followed by the location decoded from \<open>state\<close>.\<close>

lemma sign_and_redirect_location:
  assumes "truthy_str (signingSecret environment)"
    and "jwt_sign w (signed_claims payload (date_now w)) (template_str (signingSecret environment)) =
           Inr jwtToken"
    and "jwtToken \<noteq> []" and "truthy_str (published urls)"
    and "new_URL w (template_str (published urls) @
           decode_location (map_option toString (query_state request))) = Inr url"
  shows "snd (sign_and_redirect request environment w (Some urls) payload) =
     Redirect (url\<lparr>searchParams := searchParams url @ [(''jwt_token'', jwtToken)]\<rparr>)"
  using assms by (simp add: sign_and_redirect_def Let_def)

subsection \<open>The effects of a setup event that replaces the webhook\<close>



section \<open>The callback of the visitor authentication\<close>

text \<open>
  Claim C1, as the code has it. When any of \<open>client_id\<close>, \<open>client_secret\<close> or \<open>okta_domain\<close>
  is missing from the configuration of the site installation (absent or empty), the handler
  never posts to the token endpoint, whatever else the request, the environment and the
  outside are. It answers a callback request with status 400 when the public endpoint of
  the installation is a URL for \<open>new URL\<close>, the installation has a site, the environment
  has the organization identifier and \<open>getSiteById\<close> returns: the router's base and the
  published URLs are computed before the configuration is checked.
\<close>

theorem callback_missing_config_no_exchange:
  assumes "siteInstallation environment = Some si"
    and "\<not> truthy_str (client_id (si_configuration si)) \<or>
         \<not> truthy_str (client_secret (si_configuration si)) \<or>
         \<not> truthy_str (okta_domain (si_configuration si))"
  shows "(\<forall>u b. FetchPost u b \<notin> set (fst (handleFetchEvent request environment w))) \<and>
         (matches_callback request \<and> truthy_str (si_publicEndpoint si) \<and>
          new_URL w (template_str (si_publicEndpoint si)) = Inr base \<and>
          truthy_str (si_site si) \<and> truthy_str (organization environment) \<and>
          getSiteById w (template_str (organization environment)) (si_site si) = Inr pubs \<longrightarrow>
            snd (handleFetchEvent request environment w) =
              Inr (Some (Response ''Error: Either client id, client secret or okta domain is missing'' 400)))"
proof -
  from assms(2) have n: "\<not> config_complete si" by (auto simp add: config_complete_def)
  have "FetchPost u b \<notin> set (fst (handleFetchEvent request environment w))" for u b
    using handleFetchEvent_fetch [of u b request environment w] assms(1) n by auto
  moreover have "snd (handleFetchEvent request environment w) =
      Inr (Some (Response ''Error: Either client id, client secret or okta domain is missing'' 400))"
    if "matches_callback request" "truthy_str (si_publicEndpoint si)"
       "new_URL w (template_str (si_publicEndpoint si)) = Inr base"
       "truthy_str (si_site si)" "truthy_str (organization environment)"
       "getSiteById w (template_str (organization environment)) (si_site si) = Inr pubs"
    using that assms
    by (auto simp add: handleFetchEvent_def assertSiteInstallation_def Let_def
          visitor_auth_response_def getPublishedContentUrls_returns)
  ultimately show ?thesis by blast
qed

text \<open>A callback request on an installation without \<open>client_id\<close>: status 400, no exchange.\<close>

theorem callback_missing_config_no_exchange_witness:
  "(\<forall>u b. FetchPost u b \<notin> set (fst (handleFetchEvent ex_request
        (ex_environment\<lparr>siteInstallation := Some ex_incomplete\<rparr>) ex_outside))) \<and>
   snd (handleFetchEvent ex_request (ex_environment\<lparr>siteInstallation := Some ex_incomplete\<rparr>) ex_outside) =
     Inr (Some (Response ''Error: Either client id, client secret or okta domain is missing'' 400))"
  using callback_missing_config_no_exchange [of "ex_environment\<lparr>siteInstallation := Some ex_incomplete\<rparr>" ex_incomplete ex_request
      ex_outside "\<lparr>href = ''https://i.example.com/va-okta'', searchParams = []\<rparr>"
      "Some \<lparr>published = Some ''https://docs.example.com''\<rparr>"]
  by (simp add: ex_defs matches_callback_def)

text \<open>
  The same request when the environment has no organization identifier: \<open>client_id\<close> is
  missing, and the answer is the error of \<open>assertOrgId\<close> with status 500, not 400.
\<close>

theorem callback_missing_config_counterexample:
  "client_id (si_configuration ex_incomplete) = None \<and> matches_callback ex_request \<and>
   handleFetchEvent ex_request
      (ex_environment\<lparr>siteInstallation := Some ex_incomplete, organization := None\<rparr>) ex_outside =
     ([LoggerError (Error ''No org ID found'')], Inr (Some (Response ''No org ID found'' 500)))"
  by (simp add: ex_defs callback_defs)

text \<open>
  Claim C2, as the code has it. For a \<open>state\<close> parameter that contains no \<open>-\<close>, \<open>indexOf\<close>
  is \<open>-1\<close> and \<open>substring(0)\<close> is the whole string: the decoded location is the \<open>state\<close>
  value itself (so it is empty only for an empty \<open>state\<close>).
\<close>

theorem decode_location_without_dash:
  "CHR ''-'' \<notin> set s \<Longrightarrow> decode_location (Some s) = s"
  by (simp add: decode_location_def substring_def indexOf_def indexOf_from_absent)

theorem decode_location_without_dash_witness:
  "CHR ''-'' \<notin> set ''docs'' \<and> decode_location (Some ''docs'') = ''docs''"
  using decode_location_without_dash [of "''docs''"] by simp

text \<open>
  The \<open>state\<close> value \<open>abc\<close> is not empty and has no \<open>-\<close>; its decoded location is \<open>abc\<close>, not
  the empty string, and the callback redirects to the published URL followed by \<open>abc\<close>.
\<close>

theorem decode_location_without_dash_counterexample:
  "CHR ''-'' \<notin> set ''abc'' \<and> decode_location (Some ''abc'') = ''abc'' \<and> ''abc'' \<noteq> [] \<and>
   query_state ex_request = Some (Single ''abc'') \<and>
   snd (handleFetchEvent ex_request ex_environment ex_outside) =
     Inr (Some (Redirect \<lparr>href = ''https://docs.example.com'' @ ''abc'',
                          searchParams = [(''jwt_token'', ''signed'')]\<rparr>))"
  by (simp add: ex_defs callback_defs)

text \<open>
  Claim C3. For every \<open>state\<close> parameter of the form \<open>state-<location>\<close> the decoded location
  is \<open><location>\<close>, everything after the first \<open>-\<close>, with the \<open>-\<close> characters of
  \<open><location>\<close> kept as they are; \<open>state-/docs/page\<close> decodes to \<open>/docs/page\<close>.
\<close>

theorem decode_location_after_first_dash:
  "decode_location (Some (''state-'' @ location)) = location \<and>
   decode_location (Some ''state-/docs/page'') = ''/docs/page'' \<and>
   decode_location (Some ''state-/a-b/c-d'') = ''/a-b/c-d''"
  using decode_location_split [of "''state''" location]
    decode_location_split [of "''state''" "''/docs/page''"]
    decode_location_split [of "''state''" "''/a-b/c-d''"]
  by simp







text \<open>
  Claim C10, as the code has it. When the site installation has no private signing key,
  the callback never calls \<open>jwt.sign\<close> and never answers with a redirect. When moreover it
  has posted to the token endpoint, the response is \<open>ok\<close> with a non-empty \<open>access_token\<close>
  in a JSON body, and \<open>jwt.decode\<close> returns for that token, the answer has status 400
  and the body \<open>Error: Missing private key from site installation\<close>: the token is decoded
  before the key is looked at.
\<close>

theorem callback_missing_private_key:
  assumes "\<not> truthy_str (signingSecret environment)"
  shows "(\<forall>claims key. JwtSign claims key \<notin> set (fst (handleFetchEvent request environment w))) \<and>
         (\<forall>url. snd (handleFetchEvent request environment w) \<noteq> Inr (Some (Redirect url))) \<and>
         (FetchPost u b \<in> set (fst (handleFetchEvent request environment w)) \<and>
          fetch_token w u b = Inr resp \<and> ok resp \<and> resp_json resp = Inr body \<and>
          property body ''access_token'' = Inr (Some token) \<and> truthy_json (Some token) \<and>
          jwt_decode w token = Inr payload \<longrightarrow>
            snd (handleFetchEvent request environment w) =
              Inr (Some (Response ''Error: Missing private key from site installation'' 400)))"
proof -
  have "snd (handleFetchEvent request environment w) =
          Inr (Some (Response ''Error: Missing private key from site installation'' 400))"
    if f: "FetchPost u b \<in> set (fst (handleFetchEvent request environment w))"
      and r: "fetch_token w u b = Inr resp" "ok resp" "resp_json resp = Inr body"
        "property body ''access_token'' = Inr (Some token)" "truthy_json (Some token)"
        "jwt_decode w token = Inr payload"
  proof -
    from handleFetchEvent_fetch [OF f] obtain si pubs base where
      si: "siteInstallation environment = Some si" "truthy_str (si_publicEndpoint si)"
        "new_URL w (template_str (si_publicEndpoint si)) = Inr base"
        "matches_callback request" "truthy_str (si_site si)"
        "truthy_str (organization environment)" "config_complete si"
        "getSiteById w (template_str (organization environment)) (si_site si) = Inr pubs"
      and u: "u = accessTokenURL si"
      and b: "b = token_searchParams request si (template_str (si_publicEndpoint si))"
      by blast
    from r(1) have ft: "fetch_token w (accessTokenURL si)
        (token_searchParams request si (template_str (si_publicEndpoint si))) = Inr resp"
      by (simp add: u b)
    show ?thesis
      unfolding handleFetchEvent_exchange [OF si ft]
      using r(2-) assms
      by (simp add: handle_token_response_def sign_and_redirect_no_key)
  qed
  with handleFetchEvent_no_key [OF assms] show ?thesis by blast
qed

theorem callback_missing_private_key_witness:
  "FetchPost (accessTokenURL ex_siteInstallation)
      (token_searchParams ex_request ex_siteInstallation ''https://i.example.com/va-okta'')
     \<in> set (fst (handleFetchEvent ex_request (ex_environment\<lparr>signingSecret := None\<rparr>) ex_outside)) \<and>
   jwt_decode ex_outside (JStr ''h.p.s'') = Inr (Some ex_claims) \<and>
   snd (handleFetchEvent ex_request (ex_environment\<lparr>signingSecret := None\<rparr>) ex_outside) =
     Inr (Some (Response ''Error: Missing private key from site installation'' 400)) \<and>
   (\<forall>claims key. JwtSign claims key \<notin>
      set (fst (handleFetchEvent ex_request (ex_environment\<lparr>signingSecret := None\<rparr>) ex_outside)))"
  using callback_missing_private_key [of "ex_environment\<lparr>signingSecret := None\<rparr>" ex_request ex_outside
              "accessTokenURL ex_siteInstallation"
              "token_searchParams ex_request ex_siteInstallation ''https://i.example.com/va-okta''"
              ex_tokenResponse "JObj [(''access_token'', JStr ''h.p.s'')]" "JStr ''h.p.s''" "Some ex_claims"]
  by (simp add: ex_defs callback_defs)

text \<open>
  The exchange succeeds with the access token \<open>tok\<close>, on which the decoder throws, and the
  installation has no private key: the answer is the decoder's error with status 500.
\<close>

theorem callback_missing_private_key_counterexample:
  "signingSecret (ex_environment\<lparr>signingSecret := None\<rparr>) = None \<and>
   FetchPost (accessTokenURL ex_siteInstallation)
      (token_searchParams ex_request ex_siteInstallation ''https://i.example.com/va-okta'')
     \<in> set (fst (handleFetchEvent ex_request (ex_environment\<lparr>signingSecret := None\<rparr>)
                    (ex_outside\<lparr>fetch_token := (\<lambda>url form. Inr ex_opaqueResponse)\<rparr>))) \<and>
   ok ex_opaqueResponse \<and>
   resp_json ex_opaqueResponse = Inr (JObj [(''access_token'', JStr ''tok'')]) \<and>
   snd (handleFetchEvent ex_request (ex_environment\<lparr>signingSecret := None\<rparr>)
          (ex_outside\<lparr>fetch_token := (\<lambda>url form. Inr ex_opaqueResponse)\<rparr>)) =
     Inr (Some (Response ''Cannot read properties of undefined'' 500))"
  by (simp add: ex_defs callback_defs)


section \<open>The start of the visitor authentication\<close>

text \<open>
  Claim C9, as the code has it. For every event, with a location or without one, on a site
  installation: when \<open>client_id\<close> and \<open>okta_domain\<close> are present and \<open>new URL\<close> takes
  \<open>https://{okta_domain}/oauth2/v1/authorize\<close>, the handler returns a redirect to that URL
  with the query parameters \<open>client_id\<close>, \<open>response_type=code\<close>,
  \<open>redirect_uri={installationURL}/visitor-auth/response\<close>, \<open>response_mode=query\<close>,
  \<open>scope=openid\<close> and \<open>state=state-{location}\<close> appended in this order; when \<open>client_id\<close> or
  \<open>okta_domain\<close> is missing, it throws an \<open>ExposableError\<close> and returns no redirect.
\<close>

theorem fetch_visitor_authentication_redirect:
  assumes "siteInstallation environment = Some si"
  shows "(truthy_str (client_id (si_configuration si)) \<and> truthy_str (okta_domain (si_configuration si)) \<and>
          new_URL w (''https://'' @ template_str (okta_domain (si_configuration si)) @
                       ''/oauth2/v1/authorize'') = Inr url \<longrightarrow>
          fetch_visitor_authentication event environment w =
            Inr (Redirect
              (url\<lparr>searchParams := searchParams url @
                 [(''client_id'', template_str (client_id (si_configuration si))),
                  (''response_type'', ''code''),
                  (''redirect_uri'', template_str (si_publicEndpoint si) @ ''/visitor-auth/response''),
                  (''response_mode'', ''query''),
                  (''scope'', ''openid''),
                  (''state'', ''state-'' @ (case ev_location event of None \<Rightarrow> [] | Some l \<Rightarrow> l))]\<rparr>))) \<and>
         (\<not> truthy_str (client_id (si_configuration si)) \<or> \<not> truthy_str (okta_domain (si_configuration si)) \<longrightarrow>
          fetch_visitor_authentication event environment w =
            Inl (ExposableError ''OIDC configuration is missing''))"
  using assms
  by (cases "ev_location event")
     (auto simp add: fetch_visitor_authentication_def assertSiteInstallation_def Let_def)

theorem fetch_visitor_authentication_redirect_witness:
  "fetch_visitor_authentication \<lparr>ev_location = Some ''/docs/page''\<rparr> ex_environment ex_outside =
     Inr (Redirect
        \<lparr>href = ''https://dev.okta.com/oauth2/v1/authorize'',
         searchParams =
           [(''client_id'', ''0oa1''),
            (''response_type'', ''code''),
            (''redirect_uri'', ''https://i.example.com/va-okta/visitor-auth/response''),
            (''response_mode'', ''query''),
            (''scope'', ''openid''),
            (''state'', ''state-/docs/page'')]\<rparr>) \<and>
   fetch_visitor_authentication \<lparr>ev_location = None\<rparr>
       (ex_environment\<lparr>siteInstallation := Some ex_incomplete\<rparr>) ex_outside =
     Inl (ExposableError ''OIDC configuration is missing'')"
  using fetch_visitor_authentication_redirect [of ex_environment ex_siteInstallation ex_outside
            "\<lparr>href = ''https://dev.okta.com/oauth2/v1/authorize'', searchParams = []\<rparr>"
            "\<lparr>ev_location = Some ''/docs/page''\<rparr>"]
    fetch_visitor_authentication_redirect [of "ex_environment\<lparr>siteInstallation := Some ex_incomplete\<rparr>" ex_incomplete ex_outside _
          "\<lparr>ev_location = None\<rparr>"]
  by (simp add: ex_defs)

text \<open>
  With the domain \<open>my okta\<close> both values are present, \<open>new URL\<close> throws, and the handler
  returns no redirect.
\<close>

theorem fetch_visitor_authentication_counterexample:
  "truthy_str (client_id (si_configuration ex_spaced)) \<and>
   okta_domain (si_configuration ex_spaced) = Some ''my okta'' \<and>
   fetch_visitor_authentication \<lparr>ev_location = Some ''/docs/page''\<rparr>
       (ex_environment\<lparr>siteInstallation := Some ex_spaced\<rparr>) ex_outside =
     Inl (TypeError ''Invalid URL'')"
  by (simp add: ex_defs fetch_visitor_authentication_def assertSiteInstallation_def Let_def)


section \<open>The webhook of the GitLab installation\<close>

text \<open>
  Claim C6. \<open>shouldUpdateGitLabWebHook(newConf, previous)\<close> returns a true (truthy) value if
  and only if the project changed, or the auth token changed, or the host changed, or
  \<open>previous.status\<close> is \<open>Pending\<close> and \<open>previous.conf\<close> has no ref and \<open>newConf\<close> has a ref.
  When the configurations are identical and the previous status is \<open>Active\<close> it returns
  \<open>false\<close>. (The value of \<open>||\<close> and \<open>&&\<close> is an operand: where only the last condition
  holds, the value returned is the new ref, which the caller tests with \<open>!\<close>.)
\<close>

theorem shouldUpdateGitLabWebHook_iff:
  "(truthy (shouldUpdateGitLabWebHook newConf previous) \<longleftrightarrow>
     (project newConf \<noteq> project (conf previous) \<or>
      auth_token newConf \<noteq> auth_token (conf previous) \<or>
      gitlab_host newConf \<noteq> gitlab_host (conf previous) \<or>
      (status previous = Pending \<and> \<not> truthy (ref (conf previous)) \<and> truthy (ref newConf)))) \<and>
   (newConf = conf previous \<and> status previous = Active \<longrightarrow>
      shouldUpdateGitLabWebHook newConf previous = Bool False)"
  by (simp add: shouldUpdateGitLabWebHook_def js_or_def js_and_def)

theorem shouldUpdateGitLabWebHook_iff_witness:
  "truthy (shouldUpdateGitLabWebHook ex_newConf \<lparr>status = Active, conf = ex_previousConf\<rparr>) \<and>
   shouldUpdateGitLabWebHook ex_newConf \<lparr>status = Active, conf = ex_newConf\<rparr> = Bool False \<and>
   shouldUpdateGitLabWebHook ex_newConf \<lparr>status = Pending, conf = ex_newConf\<lparr>ref := Undefined\<rparr>\<rparr> =
     Str ''main''"
  using shouldUpdateGitLabWebHook_iff [of ex_newConf "\<lparr>status = Active, conf = ex_previousConf\<rparr>"]
        shouldUpdateGitLabWebHook_iff [of ex_newConf "\<lparr>status = Active, conf = ex_newConf\<rparr>"]
  by (simp add: ex_newConf_def ex_previousConf_def shouldUpdateGitLabWebHook_def js_or_def js_and_def)

text \<open>
  Claim C7. For every \<open>space_installation_setup\<close> event whose status is \<open>Pending\<close>, the
  handler returns normally, without an error, and does nothing to a webhook or to the
  stored configuration: no install, no uninstall, no update (it writes one log line).
\<close>

theorem setup_pending_noop:
  "ev_status event = Pending \<Longrightarrow>
   snd (handleSpaceInstallationSetupEvent event environment inst) = Inr () \<and>
   webhook_actions (fst (handleSpaceInstallationSetupEvent event environment inst)) = []"
  by (simp add: handleSpaceInstallationSetupEvent_def webhook_actions_def)

theorem setup_pending_noop_witness:
  "ev_status (ex_event\<lparr>ev_status := Pending\<rparr>) = Pending \<and>
   snd (handleSpaceInstallationSetupEvent (ex_event\<lparr>ev_status := Pending\<rparr>)
          ex_gitlabEnvironment ex_install) = Inr () \<and>
   webhook_actions (fst (handleSpaceInstallationSetupEvent (ex_event\<lparr>ev_status := Pending\<rparr>)
          ex_gitlabEnvironment ex_install)) = []"
  using setup_pending_noop [of "ex_event\<lparr>ev_status := Pending\<rparr>" ex_gitlabEnvironment ex_install]
  by simp



end
